theory Spec2Isabelle
  imports Complex_Main "HOL-Library.Word"
begin

section \<open>Data model\<close>

text \<open>
  The embedding follows \<^verbatim>\<open>src/lib/core/index.ts\<close> (the localization client) and
  \<^verbatim>\<open>src/lib/webxr/index.ts\<close> (the WebXR controller). A JavaScript \<^verbatim>\<open>number\<close> is read as a
  \<^typ>\<open>real\<close>: the arithmetic of the source is the arithmetic of the model, rounding aside.
  Pixel dimensions of a camera image are natural numbers. Objects that the code only holds and
  hands on (renderer, camera, scene, DOM elements, closures, textures) are identities of type
  \<^typ>\<open>nat\<close>. A promise is the value it settles to.
\<close>

type_synonym byte = "8 word"

text \<open>Errors: an \<^verbatim>\<open>Error\<close> with its message, a transport failure of the HTTP client, and the
  range error of a typed-array write.\<close>

datatype error = Error string | AxiosError string | RangeError

datatype 'a promise = Resolved 'a | Rejected error | Pending

definition MissingTokenError :: error where
  "MissingTokenError = Error ''Access token is missing. Call authorize() first.''"

definition AuthorizationError :: error where
  "AuthorizationError = Error ''Authorization succeeded but no token was returned.''"

definition SecureContextError :: error where
  "SecureContextError = Error ''WebXR requires a secure context (HTTPS).''"

definition NotInitializedError :: error where
  "NotInitializedError = Error ''WebXR: WebXR controller has not been initialized.''"

definition NoActiveSessionError :: error where
  "NoActiveSessionError =
     Error ''WebXR Session: No active WebXR session. Start AR before capturing.''"

definition NoReferenceSpaceError :: error where
  "NoReferenceSpaceError =
     Error ''WebXR Reference Space: Unable to acquire XR reference space.''"

definition SceneNotInitializedError :: error where
  "SceneNotInitializedError = Error ''Scene: WebXR controller has not been initialized.''"

definition CameraNotInitializedError :: error where
  "CameraNotInitializedError = Error ''Camera: WebXR controller has not been initialized.''"

definition RendererNotInitializedError :: error where
  "RendererNotInitializedError = Error ''Renderer: WebXR controller has not been initialized.''"

subsection \<open>Types of the core module\<close>

datatype MapType = Map | MapSet

record IMultisetSdkEndpoints =
  authUrl :: string
  queryUrl :: string
  mapDetailsUrl :: string
  fileDownloadUrl :: string
  mapSetDetailsUrl :: string

record IFrameCaptureEvent =
  blob :: "byte list"
  f_width :: nat
  f_height :: nat

record ICameraIntrinsicsEvent =
  fx :: real
  fy :: real
  px :: real
  py :: real
  i_width :: real
  i_height :: real

record ILocalizeResponse =
  poseFound :: bool
  position :: "real \<times> real \<times> real"
  rotation :: "real \<times> real \<times> real \<times> real"
  retrieval_scores :: "real list"
  num_matches :: "real list"
  confidence :: real
  retrieved_imgs :: "string list"
  mapIds :: "string list"

text \<open>Map metadata is passed through untouched; the model keeps its identifying fields.\<close>

record IGetMapsDetailsResponse =
  md_id :: string
  mapName :: string
  md_status :: string
  mapCode :: string

record ILocalizeAndMapDetails =
  localizeData :: ILocalizeResponse
  mapDetails :: "IGetMapsDetailsResponse option"

text \<open>The body of the authorization response: the two accepted token fields.\<close>

record auth_data =
  token :: "string option"
  access_token :: "string option"

datatype form_value = FText string | FNumber real | FBlob "byte list"

type_synonym form_data = "(string \<times> form_value) list"

subsection \<open>Types of the WebXR module\<close>

record XRViewport =
  vp_x :: real
  vp_y :: real
  vp_width :: real
  vp_height :: real

record xr_camera =
  cam_width :: nat
  cam_height :: nat

text \<open>A view of the viewer pose: its projection matrix (sixteen numbers, column-major), its
  camera when the runtime exposes one, and the texture that \<^verbatim>\<open>getCameraImage\<close> returns for
  that camera.\<close>

record XRView =
  projectionMatrix :: "real list"
  view_camera :: "xr_camera option"
  cameraImage :: "nat option"

record XRFrame =
  viewerPose :: "XRView list option"

text \<open>A session: the framebuffer of its base layer, and the frame the runtime passes to the
  next animation-frame callback (none when the runtime never runs it).\<close>

record XRSession =
  baseLayerFramebuffer :: "nat option"
  nextFrame :: "XRFrame option"

datatype xr_listener = SessionStartListener | SessionEndListener

text \<open>The renderer object with its XR manager. Listeners added to the XR manager stay until
  they are removed with \<^verbatim>\<open>removeEventListener\<close>; releasing the renderer stops its animation
  loop and frees its GPU resources. The size and pixel ratio of the renderer and the parameters
  of the camera are set once by \<^verbatim>\<open>initialize\<close> and read by no operation below; they are left
  out.\<close>

record WebGLRenderer =
  r_canvas :: nat
  xr_enabled :: bool
  xr_isPresenting :: bool
  xr_session :: "XRSession option"
  xr_referenceSpace :: "nat option"
  xr_listeners :: "(string \<times> xr_listener) list"
  r_animationLoop :: "nat option"
  r_disposed :: bool

datatype event =
    HttpPostAuth string string string
  | HttpPostQuery string form_data string
  | HttpGet string string
  | OnAuthorizeEv string
  | OnFrameCapturedEv IFrameCaptureEvent
  | OnCameraIntrinsicsEv ICameraIntrinsicsEvent
  | OnPoseResultEv ILocalizeResponse
  | OnErrorEv error
  | OnARButtonCreatedEv nat
  | OnSessionStartEv
  | OnSessionEndEv
  | RequestAnimationFrame
  | BindFramebuffer "nat option"

subsection \<open>Callbacks of the host application\<close>

text \<open>A callback of the host application is optional. When it is called it either returns or
  throws; which of the two may depend on its argument and on everything that happened before
  the call (the trace so far). \<open>None\<close> as outcome stands for a normal return, \<open>Some e\<close> for
  the exception \<open>e\<close>.\<close>

type_synonym 'a callback = "(event list \<Rightarrow> 'a \<Rightarrow> error option) option"

record IMultisetSdkConfig =
  clientId :: string
  clientSecret :: string
  code :: string
  mapType :: MapType
  onAuthorize :: "string callback"
  onFrameCaptured :: "IFrameCaptureEvent callback"
  onCameraIntrinsics :: "ICameraIntrinsicsEvent callback"
  onPoseResult :: "ILocalizeResponse callback"
  onError :: "error callback"

record IWebxrControllerOptions =
  opt_canvas :: "nat option"
  overlayRoot :: "nat option"
  buttonContainer :: "nat option"
  onARButtonCreated :: "nat callback"
  onSessionStart :: "unit callback"
  onSessionEnd :: "unit callback"

subsection \<open>The state\<close>

text \<open>One record holds the mutable fields of the client (\<open>accessToken\<close>), those of the
  controller (\<open>renderer\<close> to \<open>isSessionActive\<close>), the part of the browser and of the rendering
  library the code acts on (\<open>isSecureContext\<close> to \<open>renderers\<close>), and the trace of the calls
  that leave the program: requests, notifications, frame callbacks.\<close>

record world =
  accessToken :: "string option"
  renderer :: "nat option"
  camera :: "nat option"
  scene :: "nat option"
  animationLoop :: "nat option"
  arButton :: "nat option"
  resizeHandler :: "nat option"
  isSessionActive :: bool
  isSecureContext :: bool
  windowListeners :: "(string \<times> nat) list"
  parentElement :: "nat \<Rightarrow> nat option"
  nextId :: nat
  renderers :: "nat \<Rightarrow> WebGLRenderer"
  trace :: "event list"

text \<open>What the graphics stack answers during a read-back: the framebuffer it allocates (or
  none), the bytes \<^verbatim>\<open>readPixels\<close> writes for a texture of a given size at each index, whether
  a 2D canvas context is available, and what the canvas encodes (from the image drawn on it,
  its size and the quality factor).\<close>

record gl_env =
  createFramebuffer :: "nat option"
  readPixels :: "nat \<Rightarrow> nat \<Rightarrow> nat \<Rightarrow> nat \<Rightarrow> byte"
  getContext2d :: bool
  toBlob :: "byte list option \<Rightarrow> nat \<Rightarrow> nat \<Rightarrow> real \<Rightarrow> byte list option"

text \<open>What the network answers: to the authorization request, to the localization request
  and to the map-detail request.\<close>

record network =
  post_auth :: "string \<Rightarrow> string \<Rightarrow> string \<Rightarrow> error + auth_data option"
  post_query :: "string \<Rightarrow> form_data \<Rightarrow> string \<Rightarrow> error + ILocalizeResponse"
  http_get :: "string \<Rightarrow> string \<Rightarrow> error + IGetMapsDetailsResponse"

definition emit :: "event \<Rightarrow> world \<Rightarrow> world" where
  "emit e w = w\<lparr>trace := trace w @ [e]\<rparr>"

text \<open>The optional call \<^verbatim>\<open>callback?.(x)\<close>: nothing happens when the callback is not configured;
  otherwise the call is recorded in the trace and its outcome is the callback's.\<close>

definition invoke :: "'a callback \<Rightarrow> ('a \<Rightarrow> event) \<Rightarrow> 'a \<Rightarrow> world \<Rightarrow> error option \<times> world" where
  "invoke callback ev x w =
     (case callback of
        None \<Rightarrow> (None, w)
      | Some f \<Rightarrow> (f (trace w) x, emit (ev x) w))"

section \<open>The localization client\<close>

definition fresh_client :: "world \<Rightarrow> world" where
  "fresh_client w = w\<lparr>accessToken := None\<rparr>"

text \<open>\<open>handleError\<close> passes the error to the error callback; an exception of the callback leaves
  \<open>handleError\<close>.\<close>

definition handleError :: "IMultisetSdkConfig \<Rightarrow> error \<Rightarrow> world \<Rightarrow> error option \<times> world" where
  "handleError config e w = invoke (onError config) OnErrorEv e w"

text \<open>The catch block of \<open>authorize\<close> (lines 119 to 122): report the error, then throw it
  again.\<close>

definition authorize_catch :: "IMultisetSdkConfig \<Rightarrow> error \<Rightarrow> world \<Rightarrow> string promise \<times> world" where
  "authorize_catch config e w =
     (case handleError config e w of
        (Some thrown, w') \<Rightarrow> (Rejected thrown, w')
      | (None, w') \<Rightarrow> (Rejected e, w'))"

definition authorize ::
  "IMultisetSdkConfig \<Rightarrow> IMultisetSdkEndpoints \<Rightarrow> network \<Rightarrow> world \<Rightarrow> string promise \<times> world"
where
  "authorize config endpoints net w =
     (let w1 = emit (HttpPostAuth (authUrl endpoints) (clientId config) (clientSecret config)) w
      in case post_auth net (authUrl endpoints) (clientId config) (clientSecret config) of
           Inl e \<Rightarrow> authorize_catch config e w1
         | Inr data \<Rightarrow>
             (let tok = (case data of
                           None \<Rightarrow> None
                         | Some d \<Rightarrow> (case token d of Some t \<Rightarrow> Some t | None \<Rightarrow> access_token d))
              in case tok of
                   None \<Rightarrow> authorize_catch config AuthorizationError w1
                 | Some t \<Rightarrow>
                     if t = [] then authorize_catch config AuthorizationError w1
                     else
                       (case invoke (onAuthorize config) OnAuthorizeEv t
                               (w1\<lparr>accessToken := Some t\<rparr>) of
                          (Some thrown, w2) \<Rightarrow> authorize_catch config thrown w2
                        | (None, w2) \<Rightarrow> (Resolved t, w2))))"

definition bearer :: "world \<Rightarrow> string" where
  "bearer w = ''Bearer '' @ (case accessToken w of Some t \<Rightarrow> t | None \<Rightarrow> ''null'')"

text \<open>The catch blocks of \<open>fetchMapDetails\<close> (lines 219 to 222) and of \<open>queryLocalization\<close>
  (lines 202 to 205): report the error, then return null.\<close>

definition catch_return_null ::
  "IMultisetSdkConfig \<Rightarrow> error \<Rightarrow> world \<Rightarrow> (error + 'a option) \<times> world"
where
  "catch_return_null config e w =
     (case handleError config e w of
        (Some thrown, w') \<Rightarrow> (Inl thrown, w')
      | (None, w') \<Rightarrow> (Inr None, w'))"

definition fetchMapDetails ::
  "IMultisetSdkConfig \<Rightarrow> IMultisetSdkEndpoints \<Rightarrow> network \<Rightarrow> string \<Rightarrow> world
     \<Rightarrow> (error + IGetMapsDetailsResponse option) \<times> world"
where
  "fetchMapDetails config endpoints net mapId w =
     (let url = mapDetailsUrl endpoints @ mapId;
          w1 = emit (HttpGet url (bearer w)) w
      in case http_get net url (bearer w) of
           Inl e \<Rightarrow> catch_return_null config e w1
         | Inr d \<Rightarrow> (Inr (Some d), w1))"

definition queryForm ::
  "IMultisetSdkConfig \<Rightarrow> IFrameCaptureEvent \<Rightarrow> ICameraIntrinsicsEvent \<Rightarrow> form_data"
where
  "queryForm config frame intrinsics =
     [(''isRightHanded'', FText ''true''),
      (''width'', FNumber (real (f_width frame))),
      (''height'', FNumber (real (f_height frame))),
      (''px'', FNumber (px intrinsics)),
      (''py'', FNumber (py intrinsics)),
      (''fx'', FNumber (fx intrinsics)),
      (''fy'', FNumber (fy intrinsics)),
      (''queryImage'', FBlob (blob frame))]
     @ (if mapType config = Map then [(''mapCode'', FText (code config))]
        else [(''mapSetCode'', FText (code config))])"

definition queryLocalization ::
  "IMultisetSdkConfig \<Rightarrow> IMultisetSdkEndpoints \<Rightarrow> network \<Rightarrow> IFrameCaptureEvent
     \<Rightarrow> ICameraIntrinsicsEvent \<Rightarrow> world \<Rightarrow> (error + ILocalizeAndMapDetails option) \<times> world"
where
  "queryLocalization config endpoints net frame intrinsics w =
     (let formData = queryForm config frame intrinsics;
          w1 = emit (HttpPostQuery (queryUrl endpoints) formData (bearer w)) w
      in case post_query net (queryUrl endpoints) formData (bearer w) of
           Inl e \<Rightarrow> catch_return_null config e w1
         | Inr data \<Rightarrow>
             if \<not> poseFound data then (Inr None, w1)
             else
               (case mapIds data of
                  [] \<Rightarrow> (Inr (Some \<lparr>localizeData = data, mapDetails = None\<rparr>), w1)
                | mapId # _ \<Rightarrow>
                    (case fetchMapDetails config endpoints net mapId w1 of
                       (Inl thrown, w2) \<Rightarrow> catch_return_null config thrown w2
                     | (Inr details, w2) \<Rightarrow>
                         (Inr (Some \<lparr>localizeData = data, mapDetails = details\<rparr>), w2))))"

definition has_token :: "world \<Rightarrow> bool" where
  "has_token w = (case accessToken w of None \<Rightarrow> False | Some t \<Rightarrow> t \<noteq> [])"

definition localizeWithFrame ::
  "IMultisetSdkConfig \<Rightarrow> IMultisetSdkEndpoints \<Rightarrow> network \<Rightarrow> IFrameCaptureEvent
     \<Rightarrow> ICameraIntrinsicsEvent \<Rightarrow> world \<Rightarrow> ILocalizeAndMapDetails option promise \<times> world"
where
  "localizeWithFrame config endpoints net frame intrinsics w =
     (if \<not> has_token w then (Rejected MissingTokenError, w)
      else
        (case invoke (onFrameCaptured config) OnFrameCapturedEv frame w of
           (Some thrown, w1) \<Rightarrow> (Rejected thrown, w1)
         | (None, w1) \<Rightarrow>
             (case invoke (onCameraIntrinsics config) OnCameraIntrinsicsEv intrinsics w1 of
                (Some thrown, w2) \<Rightarrow> (Rejected thrown, w2)
              | (None, w2) \<Rightarrow>
                  (case queryLocalization config endpoints net frame intrinsics w2 of
                     (Inl thrown, w3) \<Rightarrow> (Rejected thrown, w3)
                   | (Inr queryResult, w3) \<Rightarrow>
                       (case queryResult of
                          None \<Rightarrow> (Resolved None, w3)
                        | Some r \<Rightarrow>
                            if poseFound (localizeData r) then
                              (case invoke (onPoseResult config) OnPoseResultEv
                                      (localizeData r) w3 of
                                 (Some thrown, w4) \<Rightarrow> (Rejected thrown, w4)
                               | (None, w4) \<Rightarrow> (Resolved queryResult, w4))
                            else (Resolved queryResult, w3))))))"

section \<open>The WebXR controller\<close>

subsection \<open>Browser and rendering library\<close>

definition document_body :: nat where
  "document_body = 0"

text \<open>An event target holds a listener at most once.\<close>

definition addEventListener :: "'a \<Rightarrow> 'a list \<Rightarrow> 'a list" where
  "addEventListener l ls = (if l \<in> set ls then ls else ls @ [l])"

definition removeEventListener :: "'a \<Rightarrow> 'a list \<Rightarrow> 'a list" where
  "removeEventListener l ls = removeAll l ls"

text \<open>\<^verbatim>\<open>parent.contains(e)\<close>, for an element that is at most one level below \<open>parent\<close> (the
  launch button is created detached).\<close>

definition contains :: "world \<Rightarrow> nat \<Rightarrow> nat \<Rightarrow> bool" where
  "contains w parent e = (e = parent \<or> parentElement w e = Some parent)"

definition appendChild :: "nat \<Rightarrow> nat \<Rightarrow> world \<Rightarrow> world" where
  "appendChild parent e w = w\<lparr>parentElement := (parentElement w)(e := Some parent)\<rparr>"

definition removeChild :: "nat \<Rightarrow> world \<Rightarrow> world" where
  "removeChild e w = w\<lparr>parentElement := (parentElement w)(e := None)\<rparr>"

text \<open>\<^verbatim>\<open>renderer.dispose()\<close> of the rendering library: the renderer is released; listeners
  that clients added to its XR manager are not touched.\<close>

definition renderer_dispose :: "nat \<Rightarrow> world \<Rightarrow> world" where
  "renderer_dispose r w =
     w\<lparr>renderers := (renderers w)(r := (renderers w r)\<lparr>r_disposed := True\<rparr>)\<rparr>"

subsection \<open>Session signals\<close>

text \<open>The two listeners that \<open>initialize\<close> adds to the XR manager (lines 65 to 73), and the
  delivery of an event of the XR manager of renderer \<open>r\<close> to the listeners registered for it,
  in the order of their registration. An exception of a listener ends the delivery and goes to
  the runtime that sent the signal.\<close>

definition run_listener ::
  "IWebxrControllerOptions \<Rightarrow> xr_listener \<Rightarrow> world \<Rightarrow> error option \<times> world"
where
  "run_listener options l w =
     (case l of
        SessionStartListener \<Rightarrow>
          invoke (onSessionStart options) (\<lambda>u. OnSessionStartEv) () (w\<lparr>isSessionActive := True\<rparr>)
      | SessionEndListener \<Rightarrow>
          invoke (onSessionEnd options) (\<lambda>u. OnSessionEndEv) () (w\<lparr>isSessionActive := False\<rparr>))"

fun deliver :: "IWebxrControllerOptions \<Rightarrow> xr_listener list \<Rightarrow> world \<Rightarrow> world" where
  "deliver options [] w = w"
| "deliver options (l # ls) w =
     (case run_listener options l w of
        (Some thrown, w') \<Rightarrow> w'
      | (None, w') \<Rightarrow> deliver options ls w')"

definition dispatchEvent :: "IWebxrControllerOptions \<Rightarrow> nat \<Rightarrow> string \<Rightarrow> world \<Rightarrow> world" where
  "dispatchEvent options r type w =
     deliver options
       (map snd (filter (\<lambda>tl. fst tl = type) (xr_listeners (renderers w r)))) w"

subsection \<open>Lifecycle\<close>

definition new_controller :: "world \<Rightarrow> world" where
  "new_controller w =
     w\<lparr>renderer := None, camera := None, scene := None, animationLoop := None,
       arButton := None, resizeHandler := None, isSessionActive := False\<rparr>"

definition initialize ::
  "IWebxrControllerOptions \<Rightarrow> nat option \<Rightarrow> world \<Rightarrow> nat option promise \<times> world"
where
  "initialize options buttonContainerArg w =
     (if renderer w \<noteq> None then (Resolved (arButton w), w)
      else if \<not> isSecureContext w then (Rejected SecureContextError, w)
      else
        (let n = nextId w;
             canvas = (case opt_canvas options of Some c \<Rightarrow> c | None \<Rightarrow> n);
             rendererId = n + 1;
             cameraId = n + 2;
             sceneId = n + 3;
             loopId = n + 4;
             handlerId = n + 5;
             buttonId = n + 6;
             rendererObj =
               \<lparr>r_canvas = canvas, xr_enabled = True, xr_isPresenting = False,
                xr_session = None, xr_referenceSpace = None,
                xr_listeners =
                  addEventListener (''sessionend'', SessionEndListener)
                    (addEventListener (''sessionstart'', SessionStartListener) []),
                r_animationLoop = Some loopId, r_disposed = False\<rparr>;
             w1 = w\<lparr>nextId := n + 7,
                    renderers := (renderers w)(rendererId := rendererObj),
                    windowListeners :=
                      addEventListener (''resize'', handlerId) (windowListeners w)\<rparr>;
             root = (case overlayRoot options of Some e \<Rightarrow> e | None \<Rightarrow> document_body);
             buttonParent =
               (case buttonContainerArg of
                  Some e \<Rightarrow> e
                | None \<Rightarrow> (case buttonContainer options of Some e \<Rightarrow> e | None \<Rightarrow> root));
             w2 = (if \<not> contains w1 buttonParent buttonId
                   then appendChild buttonParent buttonId w1 else w1);
             w3 = w2\<lparr>renderer := Some rendererId, camera := Some cameraId,
                     scene := Some sceneId, animationLoop := Some loopId,
                     arButton := Some buttonId, resizeHandler := Some handlerId\<rparr>
         in case invoke (onARButtonCreated options) OnARButtonCreatedEv buttonId w3 of
              (Some thrown, w4) \<Rightarrow> (Rejected thrown, w4)
            | (None, w4) \<Rightarrow> (Resolved (Some buttonId), w4)))"

definition getScene :: "world \<Rightarrow> error + nat" where
  "getScene w = (case scene w of None \<Rightarrow> Inl SceneNotInitializedError | Some s \<Rightarrow> Inr s)"

definition getCamera :: "world \<Rightarrow> error + nat" where
  "getCamera w = (case camera w of None \<Rightarrow> Inl CameraNotInitializedError | Some c \<Rightarrow> Inr c)"

definition getRenderer :: "world \<Rightarrow> error + nat" where
  "getRenderer w =
     (case renderer w of None \<Rightarrow> Inl RendererNotInitializedError | Some r \<Rightarrow> Inr r)"

definition hasActiveSession :: "world \<Rightarrow> bool" where
  "hasActiveSession w =
     (isSessionActive w \<and>
      (case renderer w of None \<Rightarrow> False | Some r \<Rightarrow> xr_isPresenting (renderers w r)))"

definition dispose :: "world \<Rightarrow> world" where
  "dispose w =
     (let w1 = (case resizeHandler w of
                  Some h \<Rightarrow>
                    w\<lparr>windowListeners := removeEventListener (''resize'', h) (windowListeners w)\<rparr>
                | None \<Rightarrow> w);
          w2 = (case renderer w1 of
                  Some r \<Rightarrow> (renderer_dispose r w1)\<lparr>renderer := None\<rparr>
                | None \<Rightarrow> w1);
          w3 = w2\<lparr>animationLoop := None, camera := None, scene := None\<rparr>;
          w4 = (case arButton w3 of
                  Some b \<Rightarrow> (case parentElement w3 b of Some p \<Rightarrow> removeChild b w3 | None \<Rightarrow> w3)
                | None \<Rightarrow> w3)
      in w4\<lparr>arButton := None\<rparr>)"

subsection \<open>Frame capture\<close>

definition getCameraIntrinsics :: "real list \<Rightarrow> XRViewport \<Rightarrow> ICameraIntrinsicsEvent" where
  "getCameraIntrinsics p viewport =
     (let u0 = ((1 - p ! 8) * vp_width viewport) / 2 + vp_x viewport;
          v0 = ((1 - p ! 9) * vp_height viewport) / 2 + vp_y viewport;
          ax = (vp_width viewport / 2) * p ! 0;
          ay = (vp_height viewport / 2) * p ! 5
      in \<lparr>fx = ax, fy = ay, px = u0, py = v0,
          i_width = vp_width viewport, i_height = vp_height viewport\<rparr>)"

definition compressToJpeg :: "gl_env \<Rightarrow> byte list \<Rightarrow> nat \<Rightarrow> nat \<Rightarrow> real \<Rightarrow> byte list" where
  "compressToJpeg gl buffer width height quality =
     (case toBlob gl (if getContext2d gl then Some buffer else None) width height quality of
        Some b \<Rightarrow> b
      | None \<Rightarrow> [])"

text \<open>Typed arrays: \<^verbatim>\<open>subarray\<close> clamps to the array; \<^verbatim>\<open>set\<close> raises a range error when the
  source does not fit at the offset.\<close>

definition subarray :: "'a list \<Rightarrow> nat \<Rightarrow> nat \<Rightarrow> 'a list" where
  "subarray xs start fin = take (fin - start) (drop start xs)"

definition typed_set :: "'a list \<Rightarrow> 'a list \<Rightarrow> nat \<Rightarrow> 'a list option" where
  "typed_set target source offset =
     (if offset + length source \<le> length target
      then Some (take offset target @ source @ drop (offset + length source) target)
      else None)"

text \<open>The row loop of lines 321 to 328, from row \<open>row\<close> on.\<close>

function flipRows :: "nat \<Rightarrow> nat \<Rightarrow> nat \<Rightarrow> byte list \<Rightarrow> byte list \<Rightarrow> error + byte list" where
  "flipRows row width height pixelBuffer flippedData =
     (if row < height then
        (let sourceStart = row * width * 4;
             destStart = (height - row - 1) * width * 4
         in case typed_set flippedData
                   (subarray pixelBuffer sourceStart (sourceStart + width * 4)) destStart of
              None \<Rightarrow> Inl RangeError
            | Some flippedData' \<Rightarrow> flipRows (row + 1) width height pixelBuffer flippedData')
      else Inr flippedData)"
  by pat_completeness auto
termination
  by (relation "measure (\<lambda>(row, width, height, pixelBuffer, flippedData). height - row)") auto

text \<open>Lines 320 to 328: the flipped copy of a pixel buffer.\<close>

definition flippedData :: "nat \<Rightarrow> nat \<Rightarrow> byte list \<Rightarrow> error + byte list" where
  "flippedData width height pixelBuffer =
     flipRows 0 width height pixelBuffer (replicate (length pixelBuffer) 0)"

text \<open>The read-back of lines 293 to 341. The renderer always has its WebGL context, so the
  first early return is not taken.\<close>

definition getCameraTextureAsImage ::
  "gl_env \<Rightarrow> nat \<Rightarrow> nat \<Rightarrow> nat \<Rightarrow> error + IFrameCaptureEvent option"
where
  "getCameraTextureAsImage gl webGLTexture width height =
     (case createFramebuffer gl of
        None \<Rightarrow> Inr None
      | Some framebuffer \<Rightarrow>
          (let pixelBuffer = map (readPixels gl webGLTexture width height) [0..<width * height * 4]
           in case flippedData width height pixelBuffer of
                Inl e \<Rightarrow> Inl e
              | Inr flipped \<Rightarrow>
                  (let b = compressToJpeg gl flipped width height 0.7
                   in if length b = 0 then Inr None
                      else Inr (Some \<lparr>blob = b, f_width = width, f_height = height\<rparr>))))"

text \<open>Lines 202 to 207: the intrinsics of a view whose camera image is \<open>width\<close> by \<open>height\<close>.\<close>

definition viewIntrinsics :: "real list \<Rightarrow> nat \<Rightarrow> nat \<Rightarrow> ICameraIntrinsicsEvent" where
  "viewIntrinsics p width height =
     getCameraIntrinsics p
       \<lparr>vp_x = 0, vp_y = 0, vp_width = real width, vp_height = real height\<rparr>"

text \<open>The loop over the views of the viewer pose (lines 179 to 220).\<close>

fun captureViews ::
  "IMultisetSdkConfig \<Rightarrow> IMultisetSdkEndpoints \<Rightarrow> network \<Rightarrow> gl_env \<Rightarrow> XRView list \<Rightarrow> world
     \<Rightarrow> ILocalizeAndMapDetails option promise \<times> world"
where
  "captureViews config endpoints net gl [] w = (Resolved None, w)"
| "captureViews config endpoints net gl (view # rest) w =
     (case view_camera view of
        None \<Rightarrow> captureViews config endpoints net gl rest w
      | Some xrCamera \<Rightarrow>
          (case cameraImage view of
             None \<Rightarrow> captureViews config endpoints net gl rest w
           | Some cameraTexture \<Rightarrow>
               (let width = cam_width xrCamera; height = cam_height xrCamera
                in if width = 0 \<or> height = 0 then captureViews config endpoints net gl rest w
                   else
                     (case getCameraTextureAsImage gl cameraTexture width height of
                        Inl e \<Rightarrow> (Rejected e, w)
                      | Inr None \<Rightarrow> captureViews config endpoints net gl rest w
                      | Inr (Some frameData) \<Rightarrow>
                          localizeWithFrame config endpoints net frameData
                            (viewIntrinsics (projectionMatrix view) width height) w))))"

definition frameCallback ::
  "IMultisetSdkConfig \<Rightarrow> IMultisetSdkEndpoints \<Rightarrow> network \<Rightarrow> gl_env \<Rightarrow> XRSession \<Rightarrow> XRFrame
     \<Rightarrow> world \<Rightarrow> ILocalizeAndMapDetails option promise \<times> world"
where
  "frameCallback config endpoints net gl session xrFrame w =
     (let (result, w1) =
            (case viewerPose xrFrame of
               None \<Rightarrow> (Resolved None, w)
             | Some views \<Rightarrow> captureViews config endpoints net gl views w)
      in (result, emit (BindFramebuffer (baseLayerFramebuffer session)) w1))"

definition captureFrame ::
  "IMultisetSdkConfig \<Rightarrow> IMultisetSdkEndpoints \<Rightarrow> network \<Rightarrow> gl_env \<Rightarrow> world
     \<Rightarrow> ILocalizeAndMapDetails option promise \<times> world"
where
  "captureFrame config endpoints net gl w =
     (case renderer w of
        None \<Rightarrow> (Rejected NotInitializedError, w)
      | Some r \<Rightarrow>
          (case camera w of
             None \<Rightarrow> (Rejected NotInitializedError, w)
           | Some c \<Rightarrow>
               (case xr_session (renderers w r) of
                  None \<Rightarrow> (Rejected NoActiveSessionError, w)
                | Some session \<Rightarrow>
                    (case xr_referenceSpace (renderers w r) of
                       None \<Rightarrow> (Rejected NoReferenceSpaceError, w)
                     | Some referenceSpace \<Rightarrow>
                         (let w1 = emit RequestAnimationFrame w
                          in case nextFrame session of
                               None \<Rightarrow> (Pending, w1)
                             | Some xrFrame \<Rightarrow>
                                 frameCallback config endpoints net gl session xrFrame w1)))))"

section \<open>Rows in reverse order\<close>

text \<open>The first \<open>k\<close> rows of \<open>n\<close> entries each of a buffer, last row first: what a vertical flip
  of an image of \<open>k\<close> rows is expected to produce.\<close>

fun reversed_rows :: "nat \<Rightarrow> nat \<Rightarrow> 'a list \<Rightarrow> 'a list" where
  "reversed_rows n 0 xs = []"
| "reversed_rows n (Suc k) xs = reversed_rows n k (drop n xs) @ take n xs"

section \<open>Session start by the runtime\<close>

text \<open>The XR manager of renderer \<open>r\<close> is given a session. It holds the session at once and
  then asks for the reference space. Only when the reference space has been acquired does it
  present and signal \<^verbatim>\<open>sessionstart\<close>; until then (or when the request fails) it holds the
  session without a reference space.\<close>

definition xr_setSession ::
  "IWebxrControllerOptions \<Rightarrow> nat \<Rightarrow> XRSession \<Rightarrow> nat option \<Rightarrow> world \<Rightarrow> world"
where
  "xr_setSession options r session referenceSpace w =
     (let w1 = w\<lparr>renderers := (renderers w)(r := (renderers w r)\<lparr>xr_session := Some session\<rparr>)\<rparr>
      in case referenceSpace of
           None \<Rightarrow> w1
         | Some space \<Rightarrow>
             dispatchEvent options r ''sessionstart''
               (w1\<lparr>renderers := (renderers w1)
                     (r := (renderers w1 r)\<lparr>xr_referenceSpace := Some space,
                                            xr_isPresenting := True\<rparr>)\<rparr>))"

section \<open>Default endpoints and example inputs\<close>

definition DEFAULT_ENDPOINTS :: IMultisetSdkEndpoints where
  "DEFAULT_ENDPOINTS =
     \<lparr>authUrl = ''https://dev-api.multiset.ai/v1/m2m/token'',
      queryUrl = ''https://dev-api.multiset.ai/v1/vps/map/query-form'',
      mapDetailsUrl = ''https://dev-api.multiset.ai/v1/vps/map/'',
      fileDownloadUrl = ''https://dev-api.multiset.ai/v1/file'',
      mapSetDetailsUrl = ''https://dev-api.multiset.ai/v1/vps/map-set/''\<rparr>"

definition demo_config :: IMultisetSdkConfig where
  "demo_config =
     \<lparr>clientId = ''YOUR_CLIENT_ID'', clientSecret = ''YOUR_CLIENT_SECRET'',
      code = ''YOUR_MAP_CODE'', mapType = Map,
      onAuthorize = Some (\<lambda>history t. None),
      onFrameCaptured = Some (\<lambda>history frame. None),
      onCameraIntrinsics = Some (\<lambda>history intrinsics. None),
      onPoseResult = Some (\<lambda>history pose. None),
      onError = Some (\<lambda>history e. None)\<rparr>"



definition blank_renderer :: WebGLRenderer where
  "blank_renderer =
     \<lparr>r_canvas = 0, xr_enabled = False, xr_isPresenting = False, xr_session = None,
      xr_referenceSpace = None, xr_listeners = [], r_animationLoop = None, r_disposed = False\<rparr>"

definition initial_world :: world where
  "initial_world =
     \<lparr>accessToken = None, renderer = None, camera = None, scene = None, animationLoop = None,
      arButton = None, resizeHandler = None, isSessionActive = False, isSecureContext = True,
      windowListeners = [], parentElement = (\<lambda>e. None), nextId = 10,
      renderers = (\<lambda>r. blank_renderer), trace = []\<rparr>"

definition demo_frame :: IFrameCaptureEvent where
  "demo_frame = \<lparr>blob = [255, 216, 255], f_width = 640, f_height = 480\<rparr>"

definition demo_intrinsics :: ICameraIntrinsicsEvent where
  "demo_intrinsics = \<lparr>fx = 500, fy = 500, px = 320, py = 240, i_width = 640, i_height = 480\<rparr>"

definition demo_pose :: ILocalizeResponse where
  "demo_pose =
     \<lparr>poseFound = True, position = (1, 2, 3), rotation = (0, 0, 0, 1), retrieval_scores = [],
      num_matches = [], confidence = 0.9, retrieved_imgs = [], mapIds = [''m1'']\<rparr>"

definition net_detail_fails :: network where
  "net_detail_fails =
     \<lparr>post_auth = (\<lambda>url user pass. Inr (Some \<lparr>token = Some ''abc'', access_token = None\<rparr>)),
      post_query = (\<lambda>url form auth. Inr demo_pose),
      http_get = (\<lambda>url auth. Inl (AxiosError ''Network Error''))\<rparr>"

definition net_no_pose :: network where
  "net_no_pose =
     \<lparr>post_auth = (\<lambda>url user pass. Inr (Some \<lparr>token = Some ''abc'', access_token = None\<rparr>)),
      post_query = (\<lambda>url form auth. Inr (demo_pose\<lparr>poseFound := False\<rparr>)),
      http_get = (\<lambda>url auth. Inl (AxiosError ''Network Error''))\<rparr>"

definition demo_options :: IWebxrControllerOptions where
  "demo_options =
     \<lparr>opt_canvas = Some 100, overlayRoot = Some 0, buttonContainer = Some 101,
      onARButtonCreated = Some (\<lambda>history button. None),
      onSessionStart = Some (\<lambda>history u. None),
      onSessionEnd = Some (\<lambda>history u. None)\<rparr>"

definition ready_world :: world where
  "ready_world = snd (initialize demo_options None initial_world)"

definition demo_session :: XRSession where
  "demo_session = \<lparr>baseLayerFramebuffer = Some 7, nextFrame = None\<rparr>"

definition session_world :: "nat option \<Rightarrow> world" where
  "session_world referenceSpace = xr_setSession demo_options 11 demo_session referenceSpace ready_world"


definition authorized_world :: world where
  "authorized_world = snd (authorize demo_config DEFAULT_ENDPOINTS net_detail_fails initial_world)"

definition demo_projection :: "real list" where
  "demo_projection =
     [1.2, 0, 0, 0,
      0, 1.6, 0, 0,
      0.01, - 0.02, - 1, - 1,
      0, 0, - 0.2, 0]"

definition demo_gl :: gl_env where
  "demo_gl =
     \<lparr>createFramebuffer = Some 1, readPixels = (\<lambda>texture width height i. 0),
      getContext2d = True, toBlob = (\<lambda>image width height quality. Some [255, 216, 255])\<rparr>"

definition demo_view :: XRView where
  "demo_view =
     \<lparr>projectionMatrix = demo_projection,
      view_camera = Some \<lparr>cam_width = 640, cam_height = 480\<rparr>,
      cameraImage = Some 3\<rparr>"

text \<open>A session whose next frame shows one camera view, on an authorized client.\<close>

definition capture_session :: XRSession where
  "capture_session =
     \<lparr>baseLayerFramebuffer = Some 7, nextFrame = Some \<lparr>viewerPose = Some [demo_view]\<rparr>\<rparr>"

definition capture_world :: world where
  "capture_world =
     xr_setSession demo_options 11 capture_session (Some 9)
       (snd (initialize demo_options None authorized_world))"

section \<open>Properties of the localization client\<close>

lemma bearer_emit [simp]: "bearer (emit e w) = bearer w"
  by (simp add: bearer_def emit_def)

lemma has_token_emit [simp]: "has_token (emit e w) = has_token w"
  by (simp add: has_token_def emit_def)

lemma trace_emit [simp]: "trace (emit e w) = trace w @ [e]"
  by (simp add: emit_def)

lemma snd_invoke:
  "snd (invoke callback ev x w) = (case callback of None \<Rightarrow> w | Some f \<Rightarrow> emit (ev x) w)"
  by (simp add: invoke_def split: option.splits)

lemma bearer_invoke [simp]: "bearer (snd (invoke callback ev x w)) = bearer w"
  by (simp add: snd_invoke split: option.splits)

lemma has_token_invoke [simp]: "has_token (snd (invoke callback ev x w)) = has_token w"
  by (simp add: snd_invoke split: option.splits)

lemma trace_invoke [simp]:
  "trace (snd (invoke callback ev x w)) =
     trace w @ (case callback of None \<Rightarrow> [] | Some f \<Rightarrow> [ev x])"
  by (simp add: snd_invoke split: option.splits)

lemma fst_invoke_returns:
  "\<forall>f history. callback = Some f \<longrightarrow> f history x = None \<Longrightarrow> fst (invoke callback ev x w) = None"
  by (simp add: invoke_def split: option.splits)

lemma trace_catch_return_null [simp]:
  "trace (snd (catch_return_null config e w)) =
     trace w @ (case onError config of None \<Rightarrow> [] | Some f \<Rightarrow> [OnErrorEv e])"
  by (simp add: catch_return_null_def handleError_def split_beta split: option.splits)



text \<open>A stored token is never empty. A resolved authorization has stored the token it
  returns; a rejected one leaves the stored token as it was, unless it is the authorize
  callback that threw (the token is stored before the callback is called).\<close>

lemma authorize_resolved:
  "authorize config endpoints net w = (Resolved t, w') \<Longrightarrow> accessToken w' = Some t \<and> t \<noteq> []"
  by (auto simp add: authorize_def authorize_catch_def Let_def invoke_def emit_def
      handleError_def split: sum.splits option.splits if_splits prod.splits)

lemma authorize_rejected:
  "authorize config endpoints net w = (Rejected e, w') \<Longrightarrow>
   \<forall>f history t. onAuthorize config = Some f \<longrightarrow> f history t = None \<Longrightarrow>
     accessToken w' = accessToken w"
  by (auto simp add: authorize_def authorize_catch_def Let_def invoke_def emit_def
      handleError_def split: sum.splits option.splits if_splits prod.splits)

lemma authorize_token_not_empty:
  "accessToken w \<noteq> Some [] \<Longrightarrow> accessToken (snd (authorize config endpoints net w)) \<noteq> Some []"
  by (auto simp add: authorize_def authorize_catch_def Let_def invoke_def emit_def
      handleError_def split: sum.splits option.splits if_splits prod.splits)

lemma authorized_world_eq:
  "authorized_world =
     initial_world\<lparr>accessToken := Some ''abc'',
       trace := [HttpPostAuth (authUrl DEFAULT_ENDPOINTS) ''YOUR_CLIENT_ID'' ''YOUR_CLIENT_SECRET'',
                 OnAuthorizeEv ''abc'']\<rparr>"
  by (simp add: authorized_world_def authorize_def net_detail_fails_def demo_config_def
      initial_world_def Let_def invoke_def emit_def)

lemma has_token_authorized_world: "has_token authorized_world"
  by (simp add: authorized_world_eq has_token_def)

text \<open>Claim C5. While no access token is stored (no authorization has succeeded),
  \<open>localizeWithFrame\<close> rejects with the missing-token error and leaves the state as it was:
  no notification is emitted and no request is made.\<close>

theorem localizeWithFrame_missing_token:
  "accessToken w = None \<Longrightarrow>
     localizeWithFrame config endpoints net frame intrinsics w = (Rejected MissingTokenError, w)"
  by (simp add: localizeWithFrame_def has_token_def)

theorem localizeWithFrame_missing_token_witness:
  "accessToken initial_world = None \<and>
   localizeWithFrame demo_config DEFAULT_ENDPOINTS net_detail_fails demo_frame demo_intrinsics
       initial_world = (Rejected MissingTokenError, initial_world)"
  using localizeWithFrame_missing_token
    [of initial_world demo_config DEFAULT_ENDPOINTS net_detail_fails demo_frame demo_intrinsics]
  by (simp add: initial_world_def)

text \<open>Claim C3. With a stored token, when the service answers the localization request with
  \<open>poseFound = false\<close>, \<open>localizeWithFrame\<close> never resolves to an object, and it resolves to null
  whenever the request is made, that is, whenever the two notifications that precede the
  request return.\<close>

theorem localizeWithFrame_pose_not_found:
  assumes "has_token w"
    and "post_query net (queryUrl endpoints) (queryForm config frame intrinsics) (bearer w)
           = Inr data"
    and "\<not> poseFound data"
  shows "(\<forall>r. fst (localizeWithFrame config endpoints net frame intrinsics w) \<noteq> Resolved (Some r))
       \<and> ((\<forall>f history. onFrameCaptured config = Some f \<longrightarrow> f history frame = None)
          \<and> (\<forall>f history. onCameraIntrinsics config = Some f \<longrightarrow> f history intrinsics = None) \<longrightarrow>
            fst (localizeWithFrame config endpoints net frame intrinsics w) = Resolved None)"
proof -
  let ?w1 = "snd (invoke (onFrameCaptured config) OnFrameCapturedEv frame w)"
  let ?w2 = "snd (invoke (onCameraIntrinsics config) OnCameraIntrinsicsEv intrinsics ?w1)"
  have query: "fst (queryLocalization config endpoints net frame intrinsics ?w2) = Inr None"
    using assms(2,3) by (simp add: queryLocalization_def Let_def)
  have "fst (localizeWithFrame config endpoints net frame intrinsics w) \<noteq> Resolved (Some r)" for r
    using assms(1) query
    by (simp add: localizeWithFrame_def split_beta split: option.splits sum.splits)
  moreover have "fst (localizeWithFrame config endpoints net frame intrinsics w) = Resolved None"
    if "\<forall>f history. onFrameCaptured config = Some f \<longrightarrow> f history frame = None"
      and "\<forall>f history. onCameraIntrinsics config = Some f \<longrightarrow> f history intrinsics = None"
    using assms(1) query that
    by (simp add: localizeWithFrame_def split_beta fst_invoke_returns)
  ultimately show ?thesis by blast
qed

theorem localizeWithFrame_pose_not_found_witness:
  "has_token authorized_world \<and>
   post_query net_no_pose (queryUrl DEFAULT_ENDPOINTS)
       (queryForm demo_config demo_frame demo_intrinsics) (bearer authorized_world)
     = Inr (demo_pose\<lparr>poseFound := False\<rparr>) \<and>
   \<not> poseFound (demo_pose\<lparr>poseFound := False\<rparr>) \<and>
   fst (localizeWithFrame demo_config DEFAULT_ENDPOINTS net_no_pose demo_frame demo_intrinsics
          authorized_world) = Resolved None"
proof -
  have call: "post_query net_no_pose (queryUrl DEFAULT_ENDPOINTS)
       (queryForm demo_config demo_frame demo_intrinsics) (bearer authorized_world)
     = Inr (demo_pose\<lparr>poseFound := False\<rparr>)"
    by (simp add: net_no_pose_def)
  have no: "\<not> poseFound (demo_pose\<lparr>poseFound := False\<rparr>)"
    by simp
  have cb: "\<forall>f history. onFrameCaptured demo_config = Some f \<longrightarrow> f history demo_frame = None"
    "\<forall>f history. onCameraIntrinsics demo_config = Some f \<longrightarrow> f history demo_intrinsics = None"
    by (simp_all add: demo_config_def)
  from localizeWithFrame_pose_not_found [OF has_token_authorized_world call no]
    has_token_authorized_world call no cb
  show ?thesis by blast
qed




section \<open>Properties of the vertical flip\<close>

lemma length_reversed_rows:
  "k * n \<le> length xs \<Longrightarrow> length (reversed_rows n k xs) = k * n"
proof (induction k arbitrary: xs)
  case 0
  then show ?case by simp
next
  case (Suc k)
  from Suc.prems have "k * n \<le> length (drop n xs)" and "n \<le> length xs"
    by simp_all
  with Suc.IH [of "drop n xs"] show ?case by simp
qed

lemma reversed_rows_append:
  "length ys = k * n \<Longrightarrow> length zs = n \<Longrightarrow>
     reversed_rows n (Suc k) (ys @ zs) = zs @ reversed_rows n k ys"
proof (induction k arbitrary: ys)
  case 0
  then show ?case by simp
next
  case (Suc k)
  from Suc.prems have len: "length (drop n ys) = k * n" and n: "n \<le> length ys"
    by simp_all
  have "reversed_rows n (Suc (Suc k)) (ys @ zs)
          = reversed_rows n (Suc k) (drop n ys @ zs) @ take n ys"
    using n by simp
  also have "\<dots> = (zs @ reversed_rows n k (drop n ys)) @ take n ys"
    using Suc.IH [OF len Suc.prems(2)] by simp
  finally show ?case by simp
qed

lemma reversed_rows_involution:
  "length xs = k * n \<Longrightarrow> reversed_rows n k (reversed_rows n k xs) = xs"
proof (induction k arbitrary: xs)
  case 0
  then show ?case by simp
next
  case (Suc k)
  from Suc.prems have len: "length (drop n xs) = k * n" and n: "n \<le> length xs"
    by simp_all
  have lenA: "length (reversed_rows n k (drop n xs)) = k * n"
    using len by (simp add: length_reversed_rows)
  have lenB: "length (take n xs) = n"
    using n by simp
  have "reversed_rows n (Suc k) (reversed_rows n (Suc k) xs)
          = reversed_rows n (Suc k) (reversed_rows n k (drop n xs) @ take n xs)"
    by simp
  also have "\<dots> = take n xs @ reversed_rows n k (reversed_rows n k (drop n xs))"
    by (rule reversed_rows_append [OF lenA lenB])
  also have "\<dots> = take n xs @ drop n xs"
    using Suc.IH [OF len] by simp
  finally show ?case by simp
qed

lemma flipRows_reversed_rows:
  assumes "length pixelBuffer = height * (width * 4)"
    and "length dst = height * (width * 4)"
    and "row \<le> height"
    and "k = height - row"
  shows "flipRows row width height pixelBuffer dst =
           Inr (reversed_rows (width * 4) k (drop (row * (width * 4)) pixelBuffer)
                @ drop (k * (width * 4)) dst)"
  using assms
proof (induction k arbitrary: row dst)
  case 0
  then have "row = height" by simp
  then show ?case by (simp add: flipRows.simps [of height])
next
  case (Suc k)
  define n where "n = width * 4"
  define src where "src = subarray pixelBuffer (row * width * 4) (row * width * 4 + width * 4)"
  define dst' where "dst' = take (k * n) dst @ src @ drop (k * n + n) dst"
  from Suc.prems have row: "row < height" and k: "k = height - (row + 1)"
    by simp_all
  have dest: "(height - row - 1) * width * 4 = k * n"
    using k by (simp add: n_def mult.assoc)
  have "Suc row * n \<le> height * n"
    using row by (intro mult_le_mono1) simp
  then have rn: "row * n + n \<le> length pixelBuffer"
    using Suc.prems(1) by (simp add: add.commute n_def)
  have src: "src = take n (drop (row * n) pixelBuffer)"
    by (simp add: src_def subarray_def n_def mult.assoc)
  have lsrc: "length src = n"
    unfolding src using rn by simp
  have "Suc k * n \<le> height * n"
    using Suc.prems(4) by (intro mult_le_mono1) simp
  then have kn: "k * n + n \<le> length dst"
    using Suc.prems(2) by (simp add: add.commute n_def)
  have set: "typed_set dst src ((height - row - 1) * width * 4) = Some dst'"
    unfolding dest using kn lsrc by (simp add: typed_set_def dst'_def)
  have ldst': "length dst' = height * (width * 4)"
    using kn lsrc Suc.prems(2) by (simp add: dst'_def)
  have step: "flipRows row width height pixelBuffer dst
                = flipRows (row + 1) width height pixelBuffer dst'"
    using row set [unfolded src_def] by (subst flipRows.simps) (simp add: Let_def)
  have IH: "flipRows (row + 1) width height pixelBuffer dst' =
              Inr (reversed_rows n k (drop ((row + 1) * n) pixelBuffer) @ drop (k * n) dst')"
    using Suc.IH [of dst' "row + 1"] Suc.prems(1) ldst' row k by (simp add: n_def)
  have d1: "drop (k * n) dst' = src @ drop (k * n + n) dst"
    using kn by (simp add: dst'_def)
  have d2: "drop ((row + 1) * n) pixelBuffer = drop n (drop (row * n) pixelBuffer)"
    by (simp add: add.commute)
  have "reversed_rows n (Suc k) (drop (row * n) pixelBuffer) @ drop (Suc k * n) dst
          = reversed_rows n k (drop ((row + 1) * n) pixelBuffer) @ drop (k * n) dst'"
    unfolding d1 d2 src by (simp add: add.commute)
  with step IH show ?case
    by (simp only: n_def)
qed

lemma flippedData_reversed_rows:
  assumes "length pixelBuffer = width * height * 4"
  shows "flippedData width height pixelBuffer = Inr (reversed_rows (width * 4) height pixelBuffer)"
proof -
  have len: "length pixelBuffer = height * (width * 4)"
    using assms by (simp add: mult.commute mult.left_commute)
  show ?thesis
    unfolding flippedData_def
    using flipRows_reversed_rows [of pixelBuffer height width
        "replicate (length pixelBuffer) 0" 0 height] len
    by simp
qed


text \<open>The read-back always flips without a range error: the pixel buffer is allocated with
  \<open>width * height * 4\<close> entries.\<close>

lemma getCameraTextureAsImage_eq:
  "getCameraTextureAsImage gl webGLTexture width height =
     (case createFramebuffer gl of
        None \<Rightarrow> Inr None
      | Some framebuffer \<Rightarrow>
          (let b = compressToJpeg gl
                     (reversed_rows (width * 4) height
                        (map (readPixels gl webGLTexture width height) [0..<width * height * 4]))
                     width height 0.7
           in if length b = 0 then Inr None
              else Inr (Some \<lparr>blob = b, f_width = width, f_height = height\<rparr>)))"
  by (simp add: getCameraTextureAsImage_def flippedData_reversed_rows Let_def
      split: option.splits)

text \<open>Claim C7. For a buffer of \<open>width * height * 4\<close> bytes, with positive width and height,
  the row-reversing flip of the read-back succeeds, keeps the length, and applied to its own
  result gives the original buffer back.\<close>

theorem vertical_flip_involution:
  assumes "0 < width" and "0 < height" and "length buf = width * height * 4"
  shows "\<exists>flipped. flippedData width height buf = Inr flipped \<and>
           length flipped = width * height * 4 \<and>
           flippedData width height flipped = Inr buf"
proof -
  let ?flipped = "reversed_rows (width * 4) height buf"
  have len: "length buf = height * (width * 4)"
    using assms(3) by (simp add: mult.commute mult.left_commute)
  then have lf: "length ?flipped = width * height * 4"
    by (simp add: length_reversed_rows mult.commute mult.left_commute)
  have "flippedData width height buf = Inr ?flipped"
    using assms(3) by (rule flippedData_reversed_rows)
  moreover have "flippedData width height ?flipped = Inr buf"
    using flippedData_reversed_rows [OF lf] reversed_rows_involution [OF len] by simp
  ultimately show ?thesis
    using lf by blast
qed

theorem vertical_flip_involution_witness:
  "(0::nat) < 1 \<and> (0::nat) < 2 \<and> length [1, 2, 3, 4, 5, 6, 7, 8 :: byte] = 1 * 2 * 4 \<and>
   flippedData 1 2 [1, 2, 3, 4, 5, 6, 7, 8] = Inr [5, 6, 7, 8, 1, 2, 3, 4] \<and>
   flippedData 1 2 [5, 6, 7, 8, 1, 2, 3, 4] = Inr [1, 2, 3, 4, 5, 6, 7, 8]"
proof -
  have a: "flippedData 1 2 [1, 2, 3, 4, 5, 6, 7, 8] = Inr [5, 6, 7, 8, 1, 2, 3, 4]"
    by (simp add: flippedData_def flipRows.simps typed_set_def subarray_def)
  from vertical_flip_involution [of 1 2 "[1, 2, 3, 4, 5, 6, 7, 8]"] a show ?thesis
    by simp
qed

section \<open>Properties of the WebXR controller\<close>

lemma ready_world_eq:
  "ready_world =
     \<lparr>accessToken = None, renderer = Some 11, camera = Some 12, scene = Some 13,
      animationLoop = Some 14, arButton = Some 16, resizeHandler = Some 15,
      isSessionActive = False, isSecureContext = True,
      windowListeners = [(''resize'', 15)], parentElement = (\<lambda>e. None)(16 := Some 101),
      nextId = 17,
      renderers = (\<lambda>r. blank_renderer)
        (11 := \<lparr>r_canvas = 100, xr_enabled = True, xr_isPresenting = False, xr_session = None,
               xr_referenceSpace = None,
               xr_listeners = [(''sessionstart'', SessionStartListener),
                               (''sessionend'', SessionEndListener)],
               r_animationLoop = Some 14, r_disposed = False\<rparr>),
      trace = [OnARButtonCreatedEv 16]\<rparr>"
  by (simp add: ready_world_def initialize_def initial_world_def demo_options_def Let_def
      addEventListener_def contains_def appendChild_def invoke_def emit_def)

lemma initialize_initial_world:
  "initialize demo_options None initial_world = (Resolved (Some 16), ready_world)"
proof -
  have "fst (initialize demo_options None initial_world) = Resolved (Some 16)"
    by (simp add: initialize_def initial_world_def demo_options_def Let_def invoke_def)
  then show ?thesis
    by (simp add: ready_world_def prod_eq_iff)
qed

lemma session_world_pending:
  "session_world None =
     ready_world\<lparr>renderers := (renderers ready_world)
       (11 := (renderers ready_world 11)\<lparr>xr_session := Some demo_session\<rparr>)\<rparr>"
  by (simp add: session_world_def xr_setSession_def Let_def)

lemma session_world_started:
  "session_world (Some space) =
     ready_world\<lparr>isSessionActive := True,
       renderers := (renderers ready_world)
         (11 := (renderers ready_world 11)\<lparr>xr_session := Some demo_session,
                                            xr_referenceSpace := Some space,
                                            xr_isPresenting := True\<rparr>),
       trace := [OnARButtonCreatedEv 16, OnSessionStartEv]\<rparr>"
  by (simp add: session_world_def xr_setSession_def dispatchEvent_def run_listener_def
      ready_world_eq demo_options_def invoke_def emit_def Let_def)

text \<open>Claim C2. The precondition checks of \<open>captureFrame\<close> come in this order, and each one
  rejects with the state as it was, so that no frame callback is scheduled and no request is
  made: without a renderer or a camera the rejection is the not-initialized error, whatever
  the session; with both and no session it is the no-active-session error, whatever the
  reference space; with both and a session but no reference space it is the
  no-reference-space error. The three errors differ.\<close>

theorem captureFrame_preconditions:
  "(renderer w = None \<or> camera w = None \<longrightarrow>
      captureFrame config endpoints net gl w = (Rejected NotInitializedError, w))
   \<and> (renderer w = Some r \<and> camera w = Some c \<and> xr_session (renderers w r) = None \<longrightarrow>
      captureFrame config endpoints net gl w = (Rejected NoActiveSessionError, w))
   \<and> (renderer w = Some r \<and> camera w = Some c \<and> xr_session (renderers w r) = Some s
        \<and> xr_referenceSpace (renderers w r) = None \<longrightarrow>
      captureFrame config endpoints net gl w = (Rejected NoReferenceSpaceError, w))
   \<and> distinct [NotInitializedError, NoActiveSessionError, NoReferenceSpaceError]"
  by (auto simp add: captureFrame_def NotInitializedError_def NoActiveSessionError_def
      NoReferenceSpaceError_def split: option.splits)

theorem captureFrame_preconditions_witness:
  "renderer initial_world = None \<and>
   captureFrame demo_config DEFAULT_ENDPOINTS net_detail_fails demo_gl initial_world
     = (Rejected NotInitializedError, initial_world) \<and>
   renderer ready_world = Some 11 \<and> camera ready_world = Some 12 \<and>
   xr_session (renderers ready_world 11) = None \<and>
   captureFrame demo_config DEFAULT_ENDPOINTS net_detail_fails demo_gl ready_world
     = (Rejected NoActiveSessionError, ready_world) \<and>
   renderer (session_world None) = Some 11 \<and> camera (session_world None) = Some 12 \<and>
   xr_session (renderers (session_world None) 11) = Some demo_session \<and>
   xr_referenceSpace (renderers (session_world None) 11) = None \<and>
   captureFrame demo_config DEFAULT_ENDPOINTS net_detail_fails demo_gl (session_world None)
     = (Rejected NoReferenceSpaceError, session_world None)"
proof -
  have a: "renderer initial_world = None"
    by (simp add: initial_world_def)
  have b: "renderer ready_world = Some 11" "camera ready_world = Some 12"
    "xr_session (renderers ready_world 11) = None"
    by (simp_all add: ready_world_eq)
  have c: "renderer (session_world None) = Some 11" "camera (session_world None) = Some 12"
    "xr_session (renderers (session_world None) 11) = Some demo_session"
    "xr_referenceSpace (renderers (session_world None) 11) = None"
    by (simp_all add: session_world_pending) (simp_all add: ready_world_eq)
  from a b c
    captureFrame_preconditions
      [of initial_world demo_config DEFAULT_ENDPOINTS net_detail_fails demo_gl]
    captureFrame_preconditions
      [of ready_world demo_config DEFAULT_ENDPOINTS net_detail_fails demo_gl 11 12]
    captureFrame_preconditions
      [of "session_world None" demo_config DEFAULT_ENDPOINTS net_detail_fails demo_gl 11 12
          demo_session]
  show ?thesis by simp
qed

lemma initialize_resolved:
  assumes "fst (initialize options container w) = Resolved button"
  shows "renderer (snd (initialize options container w)) \<noteq> None
       \<and> arButton (snd (initialize options container w)) = button"
  using assms
  by (simp add: initialize_def Let_def invoke_def emit_def appendChild_def split_beta
      split: if_splits option.splits)

text \<open>Claim C6. When a call of \<open>initialize\<close> has returned a button, a further call (with no
  \<open>dispose\<close> in between, whatever container it is given) returns the same button and leaves the
  whole state as it was: the renderer with its animation loop and its session listeners, the
  listeners of the window, the document and the trace.\<close>

theorem initialize_idempotent:
  assumes "initialize options container w = (Resolved button, w')"
  shows "initialize options container' w' = (Resolved button, w')"
proof -
  from assms have "fst (initialize options container w) = Resolved button"
    and w': "snd (initialize options container w) = w'"
    by simp_all
  then have "renderer w' \<noteq> None \<and> arButton w' = button"
    using initialize_resolved [of options container w button] by simp
  then show ?thesis
    by (simp add: initialize_def)
qed

theorem initialize_idempotent_witness:
  "initialize demo_options None initial_world = (Resolved (Some 16), ready_world) \<and>
   initialize demo_options (Some 5) ready_world = (Resolved (Some 16), ready_world)"
  using initialize_idempotent
    [of demo_options None initial_world "Some 16" ready_world "Some 5"]
    initialize_initial_world
  by simp

text \<open>What \<open>dispose\<close> does: the handles are cleared, so every accessor raises its
  not-initialized error; the renderer is released; the resize listener is removed from the
  window; the button is detached; a second call changes nothing.\<close>

lemma dispose_fields:
  "accessToken (dispose w) = accessToken w"
  "renderer (dispose w) = None"
  "camera (dispose w) = None"
  "scene (dispose w) = None"
  "animationLoop (dispose w) = None"
  "arButton (dispose w) = None"
  "resizeHandler (dispose w) = resizeHandler w"
  "isSessionActive (dispose w) = isSessionActive w"
  "isSecureContext (dispose w) = isSecureContext w"
  "windowListeners (dispose w) =
     (case resizeHandler w of
        Some h \<Rightarrow> removeEventListener (''resize'', h) (windowListeners w)
      | None \<Rightarrow> windowListeners w)"
  "parentElement (dispose w) e = (if arButton w = Some e then None else parentElement w e)"
  "nextId (dispose w) = nextId w"
  "renderers (dispose w) r =
     (if renderer w = Some r then (renderers w r)\<lparr>r_disposed := True\<rparr> else renderers w r)"
  "trace (dispose w) = trace w"
  "world.more (dispose w) = world.more w"
  by (simp_all add: dispose_def Let_def removeChild_def renderer_dispose_def
      split: option.splits)

lemma dispose_accessors:
  "getScene (dispose w) = Inl SceneNotInitializedError
   \<and> getCamera (dispose w) = Inl CameraNotInitializedError
   \<and> getRenderer (dispose w) = Inl RendererNotInitializedError"
  by (simp add: getScene_def getCamera_def getRenderer_def dispose_fields)

lemma dispose_releases_renderer:
  "renderer w = Some r \<Longrightarrow> r_disposed (renderers (dispose w) r)"
  by (simp add: dispose_fields)

lemma dispose_removes_resize_listener:
  "resizeHandler w = Some h \<Longrightarrow> (''resize'', h) \<notin> set (windowListeners (dispose w))"
  by (simp add: dispose_fields removeEventListener_def)

lemma dispose_detaches_button:
  "arButton w = Some b \<Longrightarrow> parentElement (dispose w) b = None"
  by (simp add: dispose_fields)

lemma dispose_twice: "dispose (dispose w) = dispose w"
  by (rule world.equality)
    (simp_all add: dispose_fields fun_eq_iff removeEventListener_def split: option.splits)

text \<open>The session listeners that \<open>initialize\<close> added to the XR manager of the renderer are
  still there after \<open>dispose\<close>.\<close>

lemma dispose_xr_listeners:
  "xr_listeners (renderers (dispose w) r) = xr_listeners (renderers w r)"
  by (simp add: dispose_fields)

text \<open>Claim C8, evaluated on a controller that is initialized and then disposed. The resize
  listener is gone from the window, the handles are cleared and the button is detached, but
  the two session listeners remain registered on the released renderer: a session-end signal
  that arrives after \<open>dispose\<close> still runs the listener, which calls the session-end
  notification of the options.\<close>

theorem dispose_keeps_session_listeners:
  "windowListeners (dispose ready_world) = []
   \<and> getScene (dispose ready_world) = Inl SceneNotInitializedError
   \<and> parentElement (dispose ready_world) 16 = None
   \<and> xr_listeners (renderers (dispose ready_world) 11)
       = [(''sessionstart'', SessionStartListener), (''sessionend'', SessionEndListener)]
   \<and> trace (dispatchEvent demo_options 11 ''sessionend'' (dispose ready_world))
       = trace (dispose ready_world) @ [OnSessionEndEv]"
proof -
  have h: "resizeHandler ready_world = Some 15" "arButton ready_world = Some 16"
    "windowListeners ready_world = [(''resize'', 15)]"
    "xr_listeners (renderers ready_world 11)
       = [(''sessionstart'', SessionStartListener), (''sessionend'', SessionEndListener)]"
    by (simp_all add: ready_world_eq)
  have "windowListeners (dispose ready_world) = []"
    using h by (simp add: dispose_fields removeEventListener_def)
  moreover have "trace (dispatchEvent demo_options 11 ''sessionend'' (dispose ready_world))
       = trace (dispose ready_world) @ [OnSessionEndEv]"
    using h by (simp add: dispatchEvent_def dispose_xr_listeners run_listener_def
        demo_options_def invoke_def)
  ultimately show ?thesis
    using h by (simp add: dispose_accessors dispose_detaches_button dispose_xr_listeners)
qed

text \<open>Claim C10. After \<open>dispose\<close>, \<open>hasActiveSession\<close> is false in every state, although
  \<open>dispose\<close> leaves the session-active flag as it was: the renderer is gone.\<close>

theorem dispose_no_active_session:
  "hasActiveSession (dispose w) = False \<and> isSessionActive (dispose w) = isSessionActive w"
  by (simp add: hasActiveSession_def dispose_fields)

lemma dispose_during_session:
  "hasActiveSession (session_world (Some 9)) \<and> isSessionActive (dispose (session_world (Some 9)))
   \<and> \<not> hasActiveSession (dispose (session_world (Some 9)))"
  by (simp add: hasActiveSession_def dispose_fields)
     (simp add: session_world_started ready_world_eq)

section \<open>Properties of the camera intrinsics\<close>

text \<open>Claim C1. For a projection matrix \<open>P\<close> of sixteen entries and a camera image of
  \<open>width\<close> by \<open>height\<close> pixels, the intrinsics derived during capture are
  \<open>fx = (width / 2) * P[0]\<close>, \<open>fy = (height / 2) * P[5]\<close>, \<open>px = (1 - P[8]) * width / 2\<close>,
  \<open>py = (1 - P[9]) * height / 2\<close>, with the width and height of the image; and for a view
  that passes the checks of the capture loop and whose read-back gives a frame, these are the
  intrinsics handed to \<open>localizeWithFrame\<close> together with that frame.\<close>

theorem capture_intrinsics_formula:
  assumes "length P = 16"
  shows "viewIntrinsics P width height =
           \<lparr>fx = (real width / 2) * P ! 0,
            fy = (real height / 2) * P ! 5,
            px = (1 - P ! 8) * real width / 2,
            py = (1 - P ! 9) * real height / 2,
            i_width = real width,
            i_height = real height\<rparr>
       \<and> (projectionMatrix view = P
            \<and> view_camera view = Some \<lparr>cam_width = width, cam_height = height\<rparr>
            \<and> cameraImage view = Some cameraTexture \<and> width \<noteq> 0 \<and> height \<noteq> 0
            \<and> getCameraTextureAsImage gl cameraTexture width height = Inr (Some frameData) \<longrightarrow>
          captureViews config endpoints net gl (view # rest) w =
            localizeWithFrame config endpoints net frameData
              \<lparr>fx = (real width / 2) * P ! 0,
               fy = (real height / 2) * P ! 5,
               px = (1 - P ! 8) * real width / 2,
               py = (1 - P ! 9) * real height / 2,
               i_width = real width,
               i_height = real height\<rparr> w)"
  by (simp add: viewIntrinsics_def getCameraIntrinsics_def Let_def)

lemma demo_read_back:
  "getCameraTextureAsImage demo_gl 3 640 480
     = Inr (Some \<lparr>blob = [255, 216, 255], f_width = 640, f_height = 480\<rparr>)"
  by (simp add: getCameraTextureAsImage_eq demo_gl_def compressToJpeg_def Let_def)

theorem capture_intrinsics_formula_witness:
  "length demo_projection = 16 \<and>
   viewIntrinsics demo_projection 640 480 =
     \<lparr>fx = 384, fy = 384, px = 316.8, py = 244.8, i_width = 640, i_height = 480\<rparr> \<and>
   captureViews demo_config DEFAULT_ENDPOINTS net_detail_fails demo_gl [demo_view] authorized_world =
     localizeWithFrame demo_config DEFAULT_ENDPOINTS net_detail_fails
       \<lparr>blob = [255, 216, 255], f_width = 640, f_height = 480\<rparr>
       \<lparr>fx = 384, fy = 384, px = 316.8, py = 244.8, i_width = 640, i_height = 480\<rparr>
       authorized_world"
proof -
  have len: "length demo_projection = 16"
    by (simp add: demo_projection_def)
  have view: "projectionMatrix demo_view = demo_projection"
    "view_camera demo_view = Some \<lparr>cam_width = 640, cam_height = 480\<rparr>"
    "cameraImage demo_view = Some 3"
    by (simp_all add: demo_view_def)
  have vals: "demo_projection ! 0 = 1.2" "demo_projection ! 5 = 1.6"
    "demo_projection ! 8 = 0.01" "demo_projection ! 9 = - 0.02"
    by (simp_all add: demo_projection_def)
  from capture_intrinsics_formula
    [of demo_projection 640 480 demo_view 3 demo_gl
        "\<lparr>blob = [255, 216, 255], f_width = 640, f_height = 480\<rparr>"
        demo_config DEFAULT_ENDPOINTS net_detail_fails "[]" authorized_world]
    len view demo_read_back
  show ?thesis by (simp add: vals)
qed

text \<open>Claim C9. For a camera image that passes the size check of the capture loop (width and
  height not zero) and a projection matrix \<open>P\<close> of sixteen entries: when \<open>P[0]\<close> and \<open>P[5]\<close> are
  positive, so are \<open>fx\<close> and \<open>fy\<close>; when \<open>P[8]\<close> and \<open>P[9]\<close> lie in \<open>[-1, 1]\<close>, the principal point
  lies in \<open>[0, width] \<times> [0, height]\<close>.\<close>

theorem intrinsics_bounds:
  assumes "length P = 16" and "width \<noteq> 0" and "height \<noteq> 0"
  shows "(0 < P ! 0 \<and> 0 < P ! 5 \<longrightarrow>
            0 < fx (viewIntrinsics P width height) \<and> 0 < fy (viewIntrinsics P width height))
       \<and> (- 1 \<le> P ! 8 \<and> P ! 8 \<le> 1 \<and> - 1 \<le> P ! 9 \<and> P ! 9 \<le> 1 \<longrightarrow>
            0 \<le> px (viewIntrinsics P width height)
          \<and> px (viewIntrinsics P width height) \<le> real width
          \<and> 0 \<le> py (viewIntrinsics P width height)
          \<and> py (viewIntrinsics P width height) \<le> real height)"
proof -
  have le: "(1 - a) * real n \<le> 2 * real n" if "- 1 \<le> a" for a :: real and n :: nat
    using that by (intro mult_right_mono) auto
  have ge: "0 \<le> (1 - a) * real n" if "a \<le> 1" for a :: real and n :: nat
    using that by (intro mult_nonneg_nonneg) auto
  show ?thesis
    using assms le [of "P ! 8" width] le [of "P ! 9" height]
      ge [of "P ! 8" width] ge [of "P ! 9" height]
    by (auto simp add: viewIntrinsics_def getCameraIntrinsics_def)
qed

theorem intrinsics_bounds_witness:
  "length demo_projection = 16 \<and> (640::nat) \<noteq> 0 \<and> (480::nat) \<noteq> 0 \<and>
   0 < demo_projection ! 0 \<and> 0 < demo_projection ! 5 \<and>
   - 1 \<le> demo_projection ! 8 \<and> demo_projection ! 8 \<le> 1 \<and>
   - 1 \<le> demo_projection ! 9 \<and> demo_projection ! 9 \<le> 1 \<and>
   0 < fx (viewIntrinsics demo_projection 640 480) \<and>
   0 < fy (viewIntrinsics demo_projection 640 480) \<and>
   0 \<le> px (viewIntrinsics demo_projection 640 480) \<and>
   px (viewIntrinsics demo_projection 640 480) \<le> 640 \<and>
   0 \<le> py (viewIntrinsics demo_projection 640 480) \<and>
   py (viewIntrinsics demo_projection 640 480) \<le> 480"
proof -
  have len: "length demo_projection = 16"
    by (simp add: demo_projection_def)
  have vals: "demo_projection ! 0 = 1.2" "demo_projection ! 5 = 1.6"
    "demo_projection ! 8 = 0.01" "demo_projection ! 9 = - 0.02"
    by (simp_all add: demo_projection_def)
  from intrinsics_bounds [of demo_projection 640 480] len
  show ?thesis by (simp add: vals)
qed

text \<open>A new client holds no token; a new controller holds no handle.\<close>

lemma fresh_client_no_token: "accessToken (fresh_client w) = None"
  by (simp add: fresh_client_def)

lemma new_controller_not_initialized:
  "getScene (new_controller w) = Inl SceneNotInitializedError
   \<and> getCamera (new_controller w) = Inl CameraNotInitializedError
   \<and> getRenderer (new_controller w) = Inl RendererNotInitializedError
   \<and> \<not> hasActiveSession (new_controller w)"
  by (simp add: new_controller_def getScene_def getCamera_def getRenderer_def
      hasActiveSession_def)

section \<open>A capture from authorization to pose\<close>

text \<open>Authorization, initialization, session start and one capture of a 640 by 480 view: one
  localization request with the size and the intrinsics of the view, one map-detail request,
  and the pose of the response as the result.\<close>

lemma capture_world_fields:
  "renderer capture_world = Some 11"
  "camera capture_world = Some 12"
  "xr_session (renderers capture_world 11) = Some capture_session"
  "xr_referenceSpace (renderers capture_world 11) = Some 9"
  "accessToken capture_world = Some ''abc''"
  "trace capture_world =
     [HttpPostAuth (authUrl DEFAULT_ENDPOINTS) ''YOUR_CLIENT_ID'' ''YOUR_CLIENT_SECRET'',
      OnAuthorizeEv ''abc'', OnARButtonCreatedEv 16, OnSessionStartEv]"
  by (simp_all add: capture_world_def xr_setSession_def dispatchEvent_def run_listener_def
      initialize_def authorized_world_eq initial_world_def demo_options_def Let_def
      addEventListener_def contains_def appendChild_def invoke_def emit_def)

lemma capture_end_to_end:
  "fst (captureFrame demo_config DEFAULT_ENDPOINTS net_detail_fails demo_gl capture_world)
     = Resolved (Some \<lparr>localizeData = demo_pose, mapDetails = None\<rparr>)
   \<and> trace (snd (captureFrame demo_config DEFAULT_ENDPOINTS net_detail_fails demo_gl
                  capture_world))
     = trace capture_world @
       [RequestAnimationFrame,
        OnFrameCapturedEv \<lparr>blob = [255, 216, 255], f_width = 640, f_height = 480\<rparr>,
        OnCameraIntrinsicsEv
          \<lparr>fx = 384, fy = 384, px = 316.8, py = 244.8, i_width = 640, i_height = 480\<rparr>,
        HttpPostQuery ''https://dev-api.multiset.ai/v1/vps/map/query-form''
          [(''isRightHanded'', FText ''true''), (''width'', FNumber 640),
           (''height'', FNumber 480), (''px'', FNumber 316.8), (''py'', FNumber 244.8),
           (''fx'', FNumber 384), (''fy'', FNumber 384),
           (''queryImage'', FBlob [255, 216, 255]), (''mapCode'', FText ''YOUR_MAP_CODE'')]
          ''Bearer abc'',
        HttpGet ''https://dev-api.multiset.ai/v1/vps/map/m1'' ''Bearer abc'',
        OnErrorEv (AxiosError ''Network Error''),
        OnPoseResultEv demo_pose,
        BindFramebuffer (Some 7)]"
proof -
  have views: "captureViews demo_config DEFAULT_ENDPOINTS net_detail_fails demo_gl [demo_view] w
      = localizeWithFrame demo_config DEFAULT_ENDPOINTS net_detail_fails
          \<lparr>blob = [255, 216, 255], f_width = 640, f_height = 480\<rparr>
          \<lparr>fx = 384, fy = 384, px = 316.8, py = 244.8, i_width = 640, i_height = 480\<rparr> w" for w
    by (simp add: demo_view_def demo_read_back viewIntrinsics_def getCameraIntrinsics_def
        demo_projection_def)
  let ?frame = "\<lparr>blob = [255, 216, 255], f_width = 640, f_height = 480\<rparr>"
  let ?intrinsics =
    "\<lparr>fx = 384, fy = 384, px = 316.8, py = 244.8, i_width = 640, i_height = 480\<rparr>"
  let ?w = "emit RequestAnimationFrame capture_world"
  let ?call = "localizeWithFrame demo_config DEFAULT_ENDPOINTS net_detail_fails ?frame
                 ?intrinsics ?w"
  have tok: "has_token capture_world"
    by (simp add: has_token_def capture_world_fields)
  have b: "bearer capture_world = ''Bearer abc''"
    by (simp add: bearer_def capture_world_fields)
  have capture:
    "captureFrame demo_config DEFAULT_ENDPOINTS net_detail_fails demo_gl capture_world
       = (fst ?call, emit (BindFramebuffer (Some 7)) (snd ?call))"
    by (simp add: captureFrame_def capture_world_fields capture_session_def frameCallback_def
        views split_beta Let_def del: captureViews.simps)
  have "fst ?call = Resolved (Some \<lparr>localizeData = demo_pose, mapDetails = None\<rparr>)"
    by (simp add: localizeWithFrame_def tok queryLocalization_def fetchMapDetails_def
        catch_return_null_def handleError_def invoke_def demo_config_def
        net_detail_fails_def demo_pose_def Let_def)
  moreover have "trace (snd ?call) = trace capture_world @
       [RequestAnimationFrame, OnFrameCapturedEv ?frame, OnCameraIntrinsicsEv ?intrinsics,
        HttpPostQuery ''https://dev-api.multiset.ai/v1/vps/map/query-form''
          [(''isRightHanded'', FText ''true''), (''width'', FNumber 640),
           (''height'', FNumber 480), (''px'', FNumber 316.8), (''py'', FNumber 244.8),
           (''fx'', FNumber 384), (''fy'', FNumber 384),
           (''queryImage'', FBlob [255, 216, 255]), (''mapCode'', FText ''YOUR_MAP_CODE'')]
          ''Bearer abc'',
        HttpGet ''https://dev-api.multiset.ai/v1/vps/map/m1'' ''Bearer abc'',
        OnErrorEv (AxiosError ''Network Error''),
        OnPoseResultEv demo_pose]"
    by (simp add: localizeWithFrame_def tok queryLocalization_def fetchMapDetails_def b
        catch_return_null_def handleError_def invoke_def queryForm_def net_detail_fails_def
        demo_config_def DEFAULT_ENDPOINTS_def demo_pose_def Let_def)
  ultimately show ?thesis
    by (simp add: capture)
qed

end
